theory Spec2Isabelle
  imports Complex_Main
begin

section \<open>Python values used by \<^verbatim>\<open>organisations/tasks.py\<close>\<close>

text \<open>
  Python integers are unbounded and are modelled by \<^typ>\<open>int\<close>.  True division \<^verbatim>\<open>a / b\<close> of
  two integers is modelled by division of reals; this is exact for the float result as long
  as the operands stay below \<open>2 ^ 53\<close>, which the call counts of an organisation do.
  An exception is a value of \<open>exn\<close>: \<open>RuntimeError\<close> stands for that class and its
  subclasses, \<open>OtherError\<close> for any exception class that \<^verbatim>\<open>except RuntimeError\<close> does not
  catch (a network error of a collaborator, a database error).
\<close>

datatype exn = ZeroDivisionError | RuntimeError | OtherError

text \<open>\<^verbatim>\<open>int(x)\<close> on a float truncates towards zero.\<close>

definition py_int :: "real \<Rightarrow> int" where
  "py_int x = (if 0 \<le> x then \<lfloor>x\<rfloor> else \<lceil>x\<rceil>)"

text \<open>\<^verbatim>\<open>a / b\<close> on integers: raises on a zero divisor.\<close>

definition truediv :: "int \<Rightarrow> int \<Rightarrow> exn + real" where
  "truediv a b = (if b = 0 then Inl ZeroDivisionError else Inr (real_of_int a / real_of_int b))"

section \<open>Threshold matching (lines 183 to 190)\<close>

text \<open>\<^verbatim>\<open>api_usage_percent = int(100 * api_usage / allowed_api_calls)\<close>\<close>

definition api_usage_percent :: "int \<Rightarrow> int \<Rightarrow> exn + int" where
  "api_usage_percent api_usage allowed_api_calls =
     (case truediv (100 * api_usage) allowed_api_calls of
        Inl e \<Rightarrow> Inl e
      | Inr q \<Rightarrow> Inr (py_int q))"

text \<open>
  The loop over \<^verbatim>\<open>API_USAGE_ALERT_THRESHOLDS\<close>: the first argument is the value of
  \<^verbatim>\<open>matched_threshold\<close> so far, \<open>None\<close> before the loop; \<^verbatim>\<open>break\<close> returns it.
\<close>

fun match_threshold :: "int option \<Rightarrow> int \<Rightarrow> int list \<Rightarrow> int option" where
  "match_threshold matched_threshold percent [] = matched_threshold"
| "match_threshold matched_threshold percent (threshold # rest) =
     (if threshold > percent then matched_threshold
      else match_threshold (Some threshold) percent rest)"

text \<open>Lines 183 to 190 together, from the usage count and the limit.\<close>

definition threshold_matcher :: "int \<Rightarrow> int \<Rightarrow> int list \<Rightarrow> exn + int option" where
  "threshold_matcher api_usage allowed_api_calls thresholds =
     (case api_usage_percent api_usage allowed_api_calls of
        Inl e \<Rightarrow> Inl e
      | Inr percent \<Rightarrow> Inr (match_threshold None percent thresholds))"


section \<open>Dates and times\<close>

text \<open>
  \<^verbatim>\<open>timezone.now()\<close> returns an aware datetime in UTC.  A datetime is modelled by the
  number of microseconds since the start of day 0 of the proleptic Gregorian calendar
  (the day before 0001-01-01, which has ordinal 1 as in \<^verbatim>\<open>date.toordinal\<close>), a
  \<^verbatim>\<open>timedelta\<close> by a number of microseconds; comparison, sum and difference are those of
  the integers.  Python restricts years to 1..9999; the model has no such bound.  The
  calendar fields are read as the standard library computes them.
\<close>

type_synonym datetime = int
type_synonym timedelta = int

definition US_PER_DAY :: int where
  "US_PER_DAY = 86400000000"

text \<open>\<^verbatim>\<open>timedelta(days=d, hours=h)\<close>\<close>

definition timedelta :: "int \<Rightarrow> int \<Rightarrow> timedelta" where
  "timedelta days hours = days * US_PER_DAY + hours * 3600000000"

definition is_leap :: "int \<Rightarrow> bool" where
  "is_leap year \<longleftrightarrow> year mod 4 = 0 \<and> (year mod 100 \<noteq> 0 \<or> year mod 400 = 0)"

definition DAYS_IN_MONTH :: "int list" where
  "DAYS_IN_MONTH = [-1, 31, 28, 31, 30, 31, 30, 31, 31, 30, 31, 30, 31]"

definition DAYS_BEFORE_MONTH :: "int list" where
  "DAYS_BEFORE_MONTH = [-1, 0, 31, 59, 90, 120, 151, 181, 212, 243, 273, 304, 334]"

definition days_in_month :: "int \<Rightarrow> int \<Rightarrow> int" where
  "days_in_month year month =
     (if month = 2 \<and> is_leap year then 29 else DAYS_IN_MONTH ! nat month)"

definition days_before_year :: "int \<Rightarrow> int" where
  "days_before_year year =
     (year - 1) * 365 + (year - 1) div 4 - (year - 1) div 100 + (year - 1) div 400"

definition days_before_month :: "int \<Rightarrow> int \<Rightarrow> int" where
  "days_before_month year month =
     DAYS_BEFORE_MONTH ! nat month + (if month > 2 \<and> is_leap year then 1 else 0)"

definition ymd2ord :: "int \<Rightarrow> int \<Rightarrow> int \<Rightarrow> int" where
  "ymd2ord year month day = days_before_year year + days_before_month year month + day"

text \<open>
  The inverse, \<^verbatim>\<open>_ord2ymd\<close> of the standard library: ordinal to (year, month, day).
  Its last part, from the day \<open>n\<close> within the year: the month is estimated by a shift and
  corrected when the estimate is too large.
\<close>

definition ord2ymd_month_day :: "bool \<Rightarrow> int \<Rightarrow> int \<times> int" where
  "ord2ymd_month_day leapyear n =
     (let month = (n + 50) div 32;
          preceding = DAYS_BEFORE_MONTH ! nat month + (if month > 2 \<and> leapyear then 1 else 0)
      in if preceding > n
         then (month - 1,
               n - (preceding - (DAYS_IN_MONTH ! nat (month - 1)
                                   + (if month - 1 = 2 \<and> leapyear then 1 else 0))) + 1)
         else (month, n - preceding + 1))"

definition ord2ymd :: "int \<Rightarrow> int \<times> int \<times> int" where
  "ord2ymd ordinal =
     (let n0 = ordinal - 1;
          n400 = n0 div 146097; r400 = n0 mod 146097;
          n100 = r400 div 36524; r100 = r400 mod 36524;
          n4 = r100 div 1461; r4 = r100 mod 1461;
          n1 = r4 div 365; n = r4 mod 365;
          year = n400 * 400 + 1 + n100 * 100 + n4 * 4 + n1
      in if n1 = 4 \<or> n100 = 4 then (year - 1, 12, 31)
         else (year, ord2ymd_month_day (n1 = 3 \<and> (n4 \<noteq> 24 \<or> n100 = 3)) n))"

definition dt_year :: "datetime \<Rightarrow> int" where
  "dt_year dt = fst (ord2ymd (dt div US_PER_DAY))"

definition dt_month :: "datetime \<Rightarrow> int" where
  "dt_month dt = fst (snd (ord2ymd (dt div US_PER_DAY)))"

definition dt_day :: "datetime \<Rightarrow> int" where
  "dt_day dt = snd (snd (ord2ymd (dt div US_PER_DAY)))"

text \<open>\<^verbatim>\<open>datetime(year, month, day, hour, minute, second, tzinfo=UTC)\<close>\<close>

definition mk_datetime :: "int \<Rightarrow> int \<Rightarrow> int \<Rightarrow> int \<Rightarrow> int \<Rightarrow> int \<Rightarrow> datetime" where
  "mk_datetime year month day hour minute second =
     ymd2ord year month day * US_PER_DAY + ((hour * 60 + minute) * 60 + second) * 1000000"

text \<open>\<^verbatim>\<open>dt.replace(year=y, month=m, day=d)\<close>: the time of day is kept.\<close>

definition dt_replace :: "datetime \<Rightarrow> int \<Rightarrow> int \<Rightarrow> int \<Rightarrow> datetime" where
  "dt_replace dt year month day = ymd2ord year month day * US_PER_DAY + dt mod US_PER_DAY"

subsection \<open>\<^verbatim>\<open>dateutil.relativedelta\<close>\<close>

text \<open>
  The fields of a \<^verbatim>\<open>relativedelta\<close> that the two constructors used here set: years, months,
  days and what is left below a day (hours, minutes and seconds, kept together as seconds,
  and microseconds).
\<close>

record relativedelta =
  rd_years :: int
  rd_months :: int
  rd_days :: int
  rd_seconds :: int
  rd_microseconds :: int

text \<open>\<^verbatim>\<open>_set_months\<close>: more than eleven months carry into years, with the sign kept.\<close>

definition set_months :: "int \<Rightarrow> relativedelta" where
  "set_months months =
     (if \<bar>months\<bar> > 11
      then \<lparr>rd_years = sgn months * ((months * sgn months) div 12),
            rd_months = sgn months * ((months * sgn months) mod 12),
            rd_days = 0, rd_seconds = 0, rd_microseconds = 0\<rparr>
      else \<lparr>rd_years = 0, rd_months = months,
            rd_days = 0, rd_seconds = 0, rd_microseconds = 0\<rparr>)"

text \<open>\<^verbatim>\<open>relativedelta(months=k)\<close>: the keyword constructor, normalised by \<^verbatim>\<open>_fix\<close>.\<close>

definition relativedelta_months :: "int \<Rightarrow> relativedelta" where
  "relativedelta_months k = set_months k"

text \<open>
  \<^verbatim>\<open>relativedelta + datetime\<close> (\<^verbatim>\<open>__radd__\<close>): years and months are added to the calendar
  fields, the day is cut down to the length of the month reached, then the days and the rest
  are added as a \<^verbatim>\<open>timedelta\<close>.
\<close>

definition rd_add :: "relativedelta \<Rightarrow> datetime \<Rightarrow> datetime" where
  "rd_add rd dt =
     (let year0 = dt_year dt + rd_years rd;
          month0 = dt_month dt + rd_months rd;
          year = (if rd_months rd \<noteq> 0 \<and> month0 > 12 then year0 + 1
                  else if rd_months rd \<noteq> 0 \<and> month0 < 1 then year0 - 1 else year0);
          month = (if rd_months rd \<noteq> 0 \<and> month0 > 12 then month0 - 12
                   else if rd_months rd \<noteq> 0 \<and> month0 < 1 then month0 + 12 else month0);
          day = min (days_in_month year month) (dt_day dt)
      in dt_replace dt year month day
           + rd_days rd * US_PER_DAY + rd_seconds rd * 1000000 + rd_microseconds rd)"

text \<open>
  The loop of \<^verbatim>\<open>relativedelta(dt1, dt2)\<close> that corrects the month count while the date
  reached overshoots \<open>dt1\<close>.  \<open>forward\<close> holds when \<open>dt1 < dt2\<close>: then the
  comparison is \<^verbatim>\<open>gt\<close> and the increment 1, otherwise \<^verbatim>\<open>lt\<close> and -1.  The loop
  ends on every input (the termination proof follows the definitions).
\<close>

function adjust_months :: "datetime \<Rightarrow> datetime \<Rightarrow> bool \<Rightarrow> int \<Rightarrow> int" where
  "adjust_months dt1 dt2 forward months =
     (if (if forward then dt1 > rd_add (set_months months) dt2
          else dt1 < rd_add (set_months months) dt2)
      then adjust_months dt1 dt2 forward (months + (if forward then 1 else -1))
      else months)"
  by pat_completeness auto

text \<open>
  \<^verbatim>\<open>relativedelta(dt1, dt2)\<close>: the month difference of the calendar fields, corrected by the
  loop, then the rest \<open>dt1 - dtm\<close> as whole seconds and microseconds, which \<^verbatim>\<open>_fix\<close>
  carries into days with the sign of the seconds.
\<close>

definition relativedelta_between :: "datetime \<Rightarrow> datetime \<Rightarrow> relativedelta" where
  "relativedelta_between dt1 dt2 =
     (let months = adjust_months dt1 dt2 (dt1 < dt2)
                     ((dt_year dt1 - dt_year dt2) * 12 + (dt_month dt1 - dt_month dt2));
          delta = dt1 - rd_add (set_months months) dt2;
          seconds = delta div 1000000
      in (set_months months)
           \<lparr>rd_days := sgn seconds * ((seconds * sgn seconds) div 86400),
            rd_seconds := sgn seconds * ((seconds * sgn seconds) mod 86400),
            rd_microseconds := delta mod 1000000\<rparr>)"

section \<open>Strings\<close>

text \<open>\<^verbatim>\<open>str(n)\<close> of an integer, as the f-strings of the module use it.\<close>

fun str_nat :: "nat \<Rightarrow> string" where
  "str_nat n =
     (if n < 10 then [''0123456789'' ! n]
      else str_nat (n div 10) @ [''0123456789'' ! (n mod 10)])"

declare str_nat.simps [simp del]

definition str_int :: "int \<Rightarrow> string" where
  "str_int i = (if i < 0 then CHR ''-'' # str_nat (nat (- i)) else str_nat (nat i))"

section \<open>Data model\<close>

text \<open>
  The rows of \<^verbatim>\<open>organisations.models\<close> that the tasks read and write.  The model classes
  are not part of the file; their fields are taken as the tasks use them.  A foreign key to
  an organisation is the organisation's id.
\<close>

record subscription =
  plan :: string
  is_free_plan :: bool
  max_api_calls :: int
  subscription_id :: string

record subscription_information_cache =
  current_billing_term_starts_at :: datetime
  current_billing_term_ends_at :: datetime
  allowed_30d_api_calls :: int

record organisation =
  org_id :: int
  org_subscription :: subscription
  org_subscription_information_cache :: "subscription_information_cache option"
  stop_serving_flags :: bool
  block_access_to_admin :: bool

text \<open>\<^verbatim>\<open>OrganisationAPIUsageNotification\<close>\<close>

record api_usage_notification =
  notification_organisation :: int
  percent_usage :: int
  notified_at :: datetime

text \<open>\<^verbatim>\<open>OrganisationAPIBilling\<close>\<close>

record api_billing =
  billing_organisation :: int
  api_overage :: int
  immediate_invoice :: bool
  billed_at :: datetime

text \<open>
  \<^verbatim>\<open>FFAdminUser\<close> with its \<^verbatim>\<open>userorganisation\<close> rows: the organisation and the role of each
  membership.
\<close>

datatype organisation_role = ADMIN | USER

record ffadmin_user =
  email :: string
  userorganisation :: "(int \<times> organisation_role) list"

text \<open>What leaves the process: a mail handed to \<^verbatim>\<open>send_mail\<close>, a call of the billing API.\<close>

record mail =
  mail_subject :: string
  mail_message :: string
  mail_html_message :: string
  mail_recipient_list :: "string list"

datatype chargebee_call =
  Add_100k_api_calls_scale_up string int
| Add_100k_api_calls_start_up string int

datatype log_entry = Log_error string | Log_info string

text \<open>
  The state the tasks act on: the tables, the rows of \<^verbatim>\<open>APILimitAccessBlock\<close> (one to one
  with an organisation, kept as the organisation ids), and the effects so far.
\<close>

record world =
  organisations :: "organisation list"
  users :: "ffadmin_user list"
  notifications :: "api_usage_notification list"
  api_billings :: "api_billing list"
  access_blocks :: "int list"
  outbox :: "mail list"
  chargebee_calls :: "chargebee_call list"
  logged :: "log_entry list"

text \<open>
  The collaborators, each of which may raise: the usage query of the analytics wrapper
  (organisation id and range string), the flag evaluation of the Flagsmith client
  (organisation id and plan, the traits of the call; the result tells for a feature name
  whether it is enabled), and the two billing calls of \<^verbatim>\<open>organisations.chargebee\<close>.
\<close>

record env =
  get_current_api_usage :: "int \<Rightarrow> string \<Rightarrow> exn + int"
  get_identity_flags :: "int \<Rightarrow> string \<Rightarrow> exn + (string \<Rightarrow> bool)"
  add_100k_api_calls :: "chargebee_call \<Rightarrow> exn + unit"

text \<open>
  The constants the module imports from \<^verbatim>\<open>organisations.constants\<close> and
  \<^verbatim>\<open>organisations.subscriptions.constants\<close>, which are not part of the file: they are
  parameters of the model.
\<close>

record constants =
  API_USAGE_ALERT_THRESHOLDS :: "int list"
  API_USAGE_GRACE_PERIOD :: int
  FREE_PLAN_ID :: string
  SCALE_UP :: string
  SCALE_UP_V2 :: string
  STARTUP :: string
  STARTUP_V2 :: string

section \<open>Usage notifications (lines 108 to 228)\<close>

text \<open>
  \<^verbatim>\<open>send_api_usage_notification\<close>.  The recipients are the users with a membership in the
  organisation; below 100 percent the query is filtered again by an admin membership.  The
  mail is sent with \<^verbatim>\<open>fail_silently=True\<close>.  The last argument before the state is the
  value \<^verbatim>\<open>timezone.now()\<close> returns on line 151.
\<close>

definition send_api_usage_notification ::
  "organisation \<Rightarrow> int \<Rightarrow> datetime \<Rightarrow> world \<Rightarrow> world" where
  "send_api_usage_notification organisation matched_threshold now st =
     (let members = concat (map (\<lambda>u. map (\<lambda>_. u)
                      (filter (\<lambda>m. fst m = org_id organisation) (userorganisation u)))
                      (users st));
          recipient_list =
            (if matched_threshold < 100
             then concat (map (\<lambda>u. map (\<lambda>_. u)
                    (filter (\<lambda>m. snd m = ADMIN) (userorganisation u))) members)
             else members);
          message = (if matched_threshold < 100
                     then ''organisations/api_usage_notification.txt''
                     else ''organisations/api_usage_notification_limit.txt'');
          html_message = (if matched_threshold < 100
                          then ''organisations/api_usage_notification.html''
                          else ''organisations/api_usage_notification_limit.html'')
      in st\<lparr>outbox := outbox st @
               [\<lparr>mail_subject = ''Flagsmith API use has reached ''
                                  @ str_int matched_threshold @ ''%'',
                 mail_message = message,
                 mail_html_message = html_message,
                 mail_recipient_list = map email recipient_list\<rparr>],
             notifications := notifications st @
               [\<lparr>notification_organisation = org_id organisation,
                 percent_usage = matched_threshold,
                 notified_at = now\<rparr>]\<rparr>)"

text \<open>
  Lines 158 to 179 of \<^verbatim>\<open>_handle_api_usage_notifications\<close>: the start of the period, the
  number of days of the usage query and the allowed calls, or the missing cache of a paid
  organisation.
\<close>

datatype usage_period = Missing_cache | Period datetime int int

definition usage_period :: "datetime \<Rightarrow> organisation \<Rightarrow> usage_period" where
  "usage_period now organisation =
     (if is_free_plan (org_subscription organisation)
      then Period (now - timedelta 30 0) 30 (max_api_calls (org_subscription organisation))
      else case org_subscription_information_cache organisation of
        None \<Rightarrow> Missing_cache
      | Some subscription_cache \<Rightarrow>
          (let billing_starts_at = current_billing_term_starts_at subscription_cache;
               month_delta = rd_months (relativedelta_between now billing_starts_at);
               period_starts_at = rd_add (relativedelta_months month_delta) billing_starts_at;
               days = rd_days (relativedelta_between now period_starts_at)
           in Period period_starts_at days (allowed_30d_api_calls subscription_cache)))"

text \<open>
  Lines 196 to 199: the query that looks for a notification already sent.  It filters the
  whole table by time and percentage.
\<close>

definition already_notified :: "datetime \<Rightarrow> int \<Rightarrow> world \<Rightarrow> bool" where
  "already_notified period_starts_at matched_threshold st =
     (filter (\<lambda>n. notified_at n > period_starts_at \<and> percent_usage n \<ge> matched_threshold)
        (notifications st) \<noteq> [])"

text \<open>
  \<^verbatim>\<open>_handle_api_usage_notifications\<close>.  \<open>now\<close> is the value of \<^verbatim>\<open>timezone.now()\<close> on line
  156 and \<open>sent_at\<close> the one on line 151, read when the notification is stored.  The result
  is the exception that leaves the function, if any, and the state reached.
\<close>

definition handle_api_usage_notifications_for ::
  "env \<Rightarrow> constants \<Rightarrow> datetime \<Rightarrow> datetime \<Rightarrow> organisation \<Rightarrow> world
     \<Rightarrow> (exn + unit) \<times> world" where
  "handle_api_usage_notifications_for e K now sent_at organisation st =
     (case usage_period now organisation of
        Missing_cache \<Rightarrow>
          (Inr (), st\<lparr>logged := logged st @
            [Log_error (''Paid organisation '' @ str_int (org_id organisation)
                          @ '' is missing subscription information cache'')]\<rparr>)
      | Period period_starts_at days allowed_api_calls \<Rightarrow>
          (case get_current_api_usage e (org_id organisation)
                  (''-'' @ str_int days @ ''d'') of
              Inl ex \<Rightarrow> (Inl ex, st)
            | Inr api_usage \<Rightarrow>
                (case api_usage_percent api_usage allowed_api_calls of
                   Inl ex \<Rightarrow> (Inl ex, st)
                 | Inr percent \<Rightarrow>
                     (case match_threshold None percent (API_USAGE_ALERT_THRESHOLDS K) of
                        None \<Rightarrow> (Inr (), st)
                      | Some matched_threshold \<Rightarrow>
                          if already_notified period_starts_at matched_threshold st
                          then (Inr (), st)
                          else (Inr (),
                                send_api_usage_notification organisation matched_threshold
                                  sent_at st)))))"



section \<open>Overage billing (lines 231 to 332)\<close>


text \<open>\<^verbatim>\<open>math.ceil(api_overage / 100_000)\<close>\<close>

definition overage_units :: "int \<Rightarrow> int" where
  "overage_units overage = \<lceil>real_of_int overage / real_of_int 100000\<rceil>"

text \<open>Lines 298 to 301: the sum over the billing rows of the table since the term's start.\<close>

definition previous_api_overage :: "subscription_information_cache \<Rightarrow> world \<Rightarrow> int" where
  "previous_api_overage subscription_cache st =
     sum_list (map api_overage
       (filter (\<lambda>ap. billed_at ap \<ge> current_billing_term_starts_at subscription_cache)
          (api_billings st)))"

text \<open>
  The body of the loop for one organisation (lines 280 to 332).  A billing call is recorded
  when it is made, whether or not it raises.  An organisation that reaches the body has a
  cache row; reading a missing one raises.
\<close>

definition charge_organisation ::
  "env \<Rightarrow> constants \<Rightarrow> datetime \<Rightarrow> organisation \<Rightarrow> world \<Rightarrow> (exn + unit) \<times> world" where
  "charge_organisation e K now organisation st =
     (case get_identity_flags e (org_id organisation) (plan (org_subscription organisation)) of
        Inl ex \<Rightarrow> (Inl ex, st)
      | Inr flags \<Rightarrow>
          if \<not> flags ''api_usage_overage_charges'' then (Inr (), st)
          else
            (case org_subscription_information_cache organisation of
               None \<Rightarrow> (Inl OtherError, st)
             | Some subscription_cache \<Rightarrow>
                 (case get_current_api_usage e (org_id organisation) ''30d'' of
                    Inl ex \<Rightarrow> (Inl ex, st)
                  | Inr api_usage \<Rightarrow>
                      (case truediv api_usage (allowed_30d_api_calls subscription_cache) of
                         Inl ex \<Rightarrow> (Inl ex, st)
                       | Inr ratio \<Rightarrow>
                           if ratio < 2
                           then (Inr (), st\<lparr>logged := logged st @
                                   [Log_info ''API Usage below normal usage or grace period.'']\<rparr>)
                           else
                             (let api_limit = allowed_30d_api_calls subscription_cache
                                                + previous_api_overage subscription_cache st;
                                  overage = api_usage - api_limit
                              in if overage \<le> 0
                                 then (Inr (), st\<lparr>logged := logged st @
                                         [Log_info ''API Usage below current API limit.'']\<rparr>)
                                 else if plan (org_subscription organisation)
                                           \<in> {SCALE_UP K, SCALE_UP_V2 K}
                                         \<or> plan (org_subscription organisation)
                                           \<in> {STARTUP K, STARTUP_V2 K}
                                 then
                                   (let call =
                                      (if plan (org_subscription organisation)
                                            \<in> {SCALE_UP K, SCALE_UP_V2 K}
                                       then Add_100k_api_calls_scale_up
                                              (subscription_id (org_subscription organisation))
                                              (overage_units overage)
                                       else Add_100k_api_calls_start_up
                                              (subscription_id (org_subscription organisation))
                                              (overage_units overage));
                                        st1 = st\<lparr>chargebee_calls := chargebee_calls st @ [call]\<rparr>
                                    in case add_100k_api_calls e call of
                                         Inl ex \<Rightarrow> (Inl ex, st1)
                                       | Inr u \<Rightarrow>
                                           (Inr (), st1\<lparr>api_billings := api_billings st1 @
                                              [\<lparr>billing_organisation = org_id organisation,
                                                api_overage = 100000 * overage_units overage,
                                                immediate_invoice = False,
                                                billed_at = now\<rparr>]\<rparr>))
                                 else (Inr (), st\<lparr>logged := logged st @
                                         [Log_error (''Unable to bill for API overages for plan `''
                                            @ plan (org_subscription organisation) @ ''`'')]\<rparr>))))))"



section \<open>Restricting and unrestricting (lines 335 to 438)\<close>

text \<open>
  The query of \<^verbatim>\<open>restrict_use_due_to_api_limit_grace_period_over\<close> (lines 343 to 369).
  \<open>now_grace\<close> and \<open>now_month\<close> are the readings of \<^verbatim>\<open>timezone.now()\<close> on lines 343 and 344.
  The \<^verbatim>\<open>exclude\<close> drops the organisations with both flags set.
\<close>

definition restrict_candidates ::
  "constants \<Rightarrow> datetime \<Rightarrow> datetime \<Rightarrow> world \<Rightarrow> organisation list" where
  "restrict_candidates K now_grace now_month st =
     filter (\<lambda>organisation.
        org_id organisation \<in>
          set (map notification_organisation
                 (filter (\<lambda>n. notified_at n > now_month - timedelta 30 0
                            \<and> notified_at n < now_grace - timedelta (API_USAGE_GRACE_PERIOD K) 0
                            \<and> percent_usage n \<ge> 100)
                    (notifications st)))
        \<and> plan (org_subscription organisation) = FREE_PLAN_ID K
        \<and> org_id organisation \<notin> set (access_blocks st)
        \<and> \<not> (stop_serving_flags organisation \<and> block_access_to_admin organisation))
       (organisations st)"

text \<open>
  The loop on lines 375 to 394: the organisations to update, with their new flags, or the
  exception of a flag evaluation.
\<close>

fun restrict_loop ::
  "env \<Rightarrow> organisation list \<Rightarrow> organisation list \<Rightarrow> exn + organisation list" where
  "restrict_loop e [] update_organisations = Inr update_organisations"
| "restrict_loop e (organisation # rest) update_organisations =
     (case get_identity_flags e (org_id organisation) (plan (org_subscription organisation)) of
        Inl ex \<Rightarrow> Inl ex
      | Inr flags \<Rightarrow>
          if \<not> flags ''api_limiting_stop_serving_flags''
             \<and> \<not> flags ''api_limiting_block_access_to_admin''
          then restrict_loop e rest update_organisations
          else restrict_loop e rest
                 (update_organisations @
                    [organisation\<lparr>stop_serving_flags := flags ''api_limiting_stop_serving_flags'',
                                  block_access_to_admin :=
                                    flags ''api_limiting_block_access_to_admin''\<rparr>]))"

text \<open>The organisations the pass restricts: none when the loop raises.\<close>

definition restrict_selected ::
  "env \<Rightarrow> constants \<Rightarrow> datetime \<Rightarrow> datetime \<Rightarrow> world \<Rightarrow> organisation list" where
  "restrict_selected e K now_grace now_month st =
     (case restrict_loop e (restrict_candidates K now_grace now_month st) [] of
        Inl ex \<Rightarrow> []
      | Inr update_organisations \<Rightarrow> update_organisations)"

text \<open>
  \<^verbatim>\<open>restrict_use_due_to_api_limit_grace_period_over\<close>: the access blocks are created and
  the two flags of the organisations written after the loop.
\<close>

definition restrict_use_due_to_api_limit_grace_period_over ::
  "env \<Rightarrow> constants \<Rightarrow> datetime \<Rightarrow> datetime \<Rightarrow> world \<Rightarrow> (exn + unit) \<times> world" where
  "restrict_use_due_to_api_limit_grace_period_over e K now_grace now_month st =
     (case restrict_loop e (restrict_candidates K now_grace now_month st) [] of
        Inl ex \<Rightarrow> (Inl ex, st)
      | Inr update_organisations \<Rightarrow>
          (Inr (),
           st\<lparr>access_blocks := access_blocks st @ map org_id update_organisations,
              organisations :=
                map (\<lambda>organisation.
                       case find (\<lambda>u. org_id u = org_id organisation) update_organisations of
                         None \<Rightarrow> organisation
                       | Some u \<Rightarrow>
                           organisation\<lparr>stop_serving_flags := stop_serving_flags u,
                                        block_access_to_admin := block_access_to_admin u\<rparr>)
                  (organisations st)\<rparr>))"

text \<open>
  \<^verbatim>\<open>unrestrict_after_api_limit_grace_period_is_stale\<close>: the organisations with an access
  block and no notification of at least 100 percent in the last thirty days (lines 413 to
  433), then the update and the deletion of their blocks.
\<close>

definition still_restricted_organisation_ids :: "datetime \<Rightarrow> world \<Rightarrow> int set" where
  "still_restricted_organisation_ids now st =
     set (map notification_organisation
            (filter (\<lambda>n. notified_at n > now - timedelta 30 0 \<and> percent_usage n \<ge> 100)
               (notifications st)))"

definition matching_organisations :: "datetime \<Rightarrow> world \<Rightarrow> organisation list" where
  "matching_organisations now st =
     filter (\<lambda>organisation.
        org_id organisation \<in> set (access_blocks st) - still_restricted_organisation_ids now st)
       (organisations st)"

definition unrestrict_after_api_limit_grace_period_is_stale :: "datetime \<Rightarrow> world \<Rightarrow> world" where
  "unrestrict_after_api_limit_grace_period_is_stale now st =
     st\<lparr>organisations :=
          map (\<lambda>organisation.
                 if org_id organisation \<in> set (map org_id (matching_organisations now st))
                 then organisation\<lparr>stop_serving_flags := False, block_access_to_admin := False\<rparr>
                 else organisation)
            (organisations st),
        access_blocks :=
          filter (\<lambda>i. i \<notin> set (map org_id (matching_organisations now st))) (access_blocks st)\<rparr>"

section \<open>The recorded overage of an organisation\<close>


section \<open>Concrete inputs\<close>

text \<open>
  Values of the constants as a deployment may set them, a free and a paid organisation,
  collaborators that answer every query with the same usage and enable every feature, and
  the empty state.
\<close>

definition example_constants :: constants where
  "example_constants =
     \<lparr>API_USAGE_ALERT_THRESHOLDS = [75, 90, 100, 120], API_USAGE_GRACE_PERIOD = 7,
      FREE_PLAN_ID = ''free'', SCALE_UP = ''scale-up'', SCALE_UP_V2 = ''scale-up-v2'',
      STARTUP = ''startup'', STARTUP_V2 = ''startup-v2''\<rparr>"

definition free_organisation :: "int \<Rightarrow> int \<Rightarrow> organisation" where
  "free_organisation i limit =
     \<lparr>org_id = i,
      org_subscription = \<lparr>plan = ''free'', is_free_plan = True, max_api_calls = limit,
                           subscription_id = ''''\<rparr>,
      org_subscription_information_cache = None,
      stop_serving_flags = False, block_access_to_admin = False\<rparr>"

definition paid_organisation :: "int \<Rightarrow> string \<Rightarrow> subscription_information_cache \<Rightarrow> organisation" where
  "paid_organisation i p subscription_cache =
     \<lparr>org_id = i,
      org_subscription = \<lparr>plan = p, is_free_plan = False, max_api_calls = 0,
                           subscription_id = ''sub''\<rparr>,
      org_subscription_information_cache = Some subscription_cache,
      stop_serving_flags = False, block_access_to_admin = False\<rparr>"

definition example_env :: "int \<Rightarrow> env" where
  "example_env usage =
     \<lparr>get_current_api_usage = (\<lambda>i w. Inr usage),
      get_identity_flags = (\<lambda>i p. Inr (\<lambda>feature. True)),
      add_100k_api_calls = (\<lambda>call. Inr ())\<rparr>"

definition empty_world :: world where
  "empty_world = \<lparr>organisations = [], users = [], notifications = [], api_billings = [],
      access_blocks = [], outbox = [], chargebee_calls = [], logged = []\<rparr>"

definition example_now :: datetime where
  "example_now = mk_datetime 2024 3 20 10 0 0"

text \<open>
  A paid organisation on a monthly term that ends half an hour after \<open>example_now\<close>, and
  one whose cached term started fourteen months before \<open>example_now\<close>.
\<close>

definition monthly_cache :: "int \<Rightarrow> subscription_information_cache" where
  "monthly_cache limit =
     \<lparr>current_billing_term_starts_at = mk_datetime 2024 2 20 10 30 0,
      current_billing_term_ends_at = mk_datetime 2024 3 20 10 30 0,
      allowed_30d_api_calls = limit\<rparr>"

definition monthly_organisation :: "int \<Rightarrow> organisation" where
  "monthly_organisation limit = paid_organisation 1 ''scale-up'' (monthly_cache limit)"

definition old_term_organisation :: organisation where
  "old_term_organisation =
     paid_organisation 1 ''scale-up''
       \<lparr>current_billing_term_starts_at = mk_datetime 2023 1 15 12 0 0,
        current_billing_term_ends_at = mk_datetime 2025 1 15 12 0 0,
        allowed_30d_api_calls = 1000\<rparr>"

text \<open>A state with the given organisations and one notification row.\<close>

definition notified_world :: "organisation list \<Rightarrow> int \<Rightarrow> int \<Rightarrow> datetime \<Rightarrow> world" where
  "notified_world orgs i percent sent =
     empty_world\<lparr>organisations := orgs,
                 notifications := [\<lparr>notification_organisation = i, percent_usage = percent,
                                    notified_at = sent\<rparr>]\<rparr>"

text \<open>
  The monthly organisation at 210 percent of its 1000 calls, with its notification of 100
  percent ten days before \<open>example_now\<close>; the same state after the biller has charged one
  unit of 100,000 calls; and the row of another organisation.
\<close>

definition breached_world :: world where
  "breached_world =
     notified_world [monthly_organisation 1000] 1 100 (mk_datetime 2024 3 10 0 0 0)"

definition charged_world :: world where
  "charged_world =
     breached_world
       \<lparr>chargebee_calls := [Add_100k_api_calls_scale_up ''sub'' 1],
        api_billings := [\<lparr>billing_organisation = 1, api_overage = 100000,
                           immediate_invoice = False, billed_at = example_now\<rparr>]\<rparr>"

definition other_billing :: api_billing where
  "other_billing =
     \<lparr>billing_organisation = 2, api_overage = 100000, immediate_invoice = False,
      billed_at = mk_datetime 2024 3 1 0 0 0\<rparr>"

text \<open>
  Two free organisations: the first notified at 100 percent fifteen days before
  \<open>example_now\<close>, the second with an access block and no notification.
\<close>

definition restriction_world :: world where
  "restriction_world =
     (notified_world [free_organisation 1 1000, free_organisation 2 1000] 1 100
        (mk_datetime 2024 3 5 0 0 0))\<lparr>access_blocks := [2]\<rparr>"

text \<open>Collaborators that fail for organisation 1: the usage query, or the flag evaluation.\<close>

definition failing_usage_env :: "exn \<Rightarrow> env" where
  "failing_usage_env ex =
     \<lparr>get_current_api_usage = (\<lambda>i w. if i = 1 then Inl ex else Inr 950),
      get_identity_flags = (\<lambda>i p. Inr (\<lambda>feature. True)),
      add_100k_api_calls = (\<lambda>call. Inr ())\<rparr>"

definition failing_flags_env :: env where
  "failing_flags_env =
     \<lparr>get_current_api_usage = (\<lambda>i w. Inr 950),
      get_identity_flags = (\<lambda>i p. if i = 1 then Inl RuntimeError else Inr (\<lambda>feature. True)),
      add_100k_api_calls = (\<lambda>call. Inr ())\<rparr>"

definition example_clock :: "nat \<Rightarrow> datetime \<times> datetime" where
  "example_clock i = (example_now, example_now + 1000000)"

section \<open>The month loop of \<^verbatim>\<open>relativedelta\<close> ends\<close>

lemma ord2ymd_month_range:
  assumes "0 \<le> n" "n < 365"
  shows "1 \<le> fst (ord2ymd_month_day leapyear n) \<and> fst (ord2ymd_month_day leapyear n) \<le> 12"
proof -
  define month where "month = (n + 50) div 32"
  from assms have m: "1 \<le> month" "month \<le> 12" unfolding month_def by linarith+
  have "2 \<le> month"
    if "DAYS_BEFORE_MONTH ! nat month + (if month > 2 \<and> leapyear then 1 else 0) > n"
  proof (rule ccontr)
    assume "\<not> 2 \<le> month"
    with m have "month = 1" by linarith
    with that assms show False by (simp add: DAYS_BEFORE_MONTH_def)
  qed
  with m show ?thesis
    by (auto simp: ord2ymd_month_day_def Let_def month_def [symmetric])
qed

lemma dt_month_range: "1 \<le> dt_month dt \<and> dt_month dt \<le> 12"
proof -
  have "1 \<le> fst (snd (ord2ymd k)) \<and> fst (snd (ord2ymd k)) \<le> 12" for k
    unfolding ord2ymd_def Let_def
    using ord2ymd_month_range [of "(((k - 1) mod 146097) mod 36524) mod 1461 mod 365"]
    by (simp split: if_splits)
  then show ?thesis by (simp add: dt_month_def)
qed

lemma month_cases:
  assumes "1 \<le> (m::int)" "m \<le> 12"
  shows "m = 1 \<or> m = 2 \<or> m = 3 \<or> m = 4 \<or> m = 5 \<or> m = 6
       \<or> m = 7 \<or> m = 8 \<or> m = 9 \<or> m = 10 \<or> m = 11 \<or> m = 12"
  using assms by presburger

lemma days_in_month_le: "1 \<le> m \<Longrightarrow> m \<le> 12 \<Longrightarrow> days_in_month y m \<le> 31"
  using month_cases [of m] by (auto simp: days_in_month_def DAYS_IN_MONTH_def)

lemma days_in_month_ge: "1 \<le> m \<Longrightarrow> m \<le> 12 \<Longrightarrow> 28 \<le> days_in_month y m"
  using month_cases [of m] by (auto simp: days_in_month_def DAYS_IN_MONTH_def)

lemma days_before_month_bounds:
  "1 \<le> m \<Longrightarrow> m \<le> 12 \<Longrightarrow> 0 \<le> days_before_month y m \<and> days_before_month y m \<le> 335"
  using month_cases [of m] by (auto simp: days_before_month_def DAYS_BEFORE_MONTH_def)

lemma days_before_year_bounds:
  "146097 * (y - 1) - 699 \<le> 400 * days_before_year y
   \<and> 400 * days_before_year y \<le> 146097 * (y - 1) + 396"
proof -
  define z where "z = y - 1"
  define a where "a = z div 4"
  define b where "b = z div 100"
  define c where "c = z div 400"
  have "4 * a \<le> z" "z < 4 * a + 4" "100 * b \<le> z" "z < 100 * b + 100"
    "400 * c \<le> z" "z < 400 * c + 400"
    unfolding a_def b_def c_def by presburger+
  moreover have "days_before_year y = z * 365 + a - b + c"
    by (simp add: days_before_year_def z_def a_def b_def c_def)
  ultimately show ?thesis unfolding z_def [symmetric] by linarith
qed

lemma set_months_split:
  "\<bar>rd_months (set_months m)\<bar> \<le> 11
   \<and> 12 * rd_years (set_months m) + rd_months (set_months m) = m
   \<and> rd_days (set_months m) = 0 \<and> rd_seconds (set_months m) = 0
   \<and> rd_microseconds (set_months m) = 0"
proof (cases "\<bar>m\<bar> > 11")
  case False
  then show ?thesis by (simp add: set_months_def)
next
  case True
  show ?thesis
  proof (cases "m > 0")
    case True
    with \<open>\<bar>m\<bar> > 11\<close> have "sgn m = 1" by simp
    with \<open>\<bar>m\<bar> > 11\<close> True show ?thesis
      by (simp add: set_months_def; presburger)
  next
    case False
    with \<open>\<bar>m\<bar> > 11\<close> have neg: "m < 0" by linarith
    then have "sgn m = -1" by simp
    with \<open>\<bar>m\<bar> > 11\<close> neg show ?thesis
      by (simp add: set_months_def; presburger)
  qed
qed

lemma rd_add_set_months_bounds:
  "\<exists>y. 12 * dt_year dt2 + m - 11 \<le> 12 * y \<and> 12 * y \<le> 12 * dt_year dt2 + m + 11
       \<and> US_PER_DAY * (days_before_year y + min 28 (dt_day dt2)) \<le> rd_add (set_months m) dt2
       \<and> rd_add (set_months m) dt2 < US_PER_DAY * (days_before_year y + 367)"
proof -
  define r where "r = set_months m"
  define month0 where "month0 = dt_month dt2 + rd_months r"
  define Y where "Y = (if rd_months r \<noteq> 0 \<and> month0 > 12 then dt_year dt2 + rd_years r + 1
                  else if rd_months r \<noteq> 0 \<and> month0 < 1 then dt_year dt2 + rd_years r - 1
                  else dt_year dt2 + rd_years r)"
  define M where "M = (if rd_months r \<noteq> 0 \<and> month0 > 12 then month0 - 12
                   else if rd_months r \<noteq> 0 \<and> month0 < 1 then month0 + 12 else month0)"
  define D where "D = min (days_in_month Y M) (dt_day dt2)"
  from set_months_split [of m]
  have r: "\<bar>rd_months r\<bar> \<le> 11" "12 * rd_years r + rd_months r = m"
    "rd_days r = 0" "rd_seconds r = 0" "rd_microseconds r = 0"
    by (simp_all add: r_def)
  from dt_month_range [of dt2] have m2: "1 \<le> dt_month dt2" "dt_month dt2 \<le> 12" by simp_all
  have M: "1 \<le> M" "M \<le> 12" and YM: "12 * Y + M = 12 * dt_year dt2 + dt_month dt2 + m"
    using r(1,2) m2 unfolding M_def Y_def month0_def by (auto split: if_splits)
  have eq: "rd_add (set_months m) dt2 = ymd2ord Y M D * US_PER_DAY + dt2 mod US_PER_DAY"
    using r(3-5)
    by (simp add: rd_add_def Let_def dt_replace_def r_def [symmetric] month0_def [symmetric]
        Y_def M_def D_def)
  define mn where "mn = min 28 (dt_day dt2)"
  define tod where "tod = dt2 mod US_PER_DAY"
  define ord where "ord = ymd2ord Y M D"
  define dby where "dby = days_before_year Y"
  have D: "mn \<le> D" "D \<le> 31"
    using days_in_month_le [OF M, of Y] days_in_month_ge [OF M, of Y]
    unfolding D_def mn_def by linarith+
  from days_before_month_bounds [OF M, of Y]
  have ord: "dby + mn \<le> ord" "ord \<le> dby + 366"
    using D by (simp_all add: ymd2ord_def ord_def dby_def)
  have tod: "0 \<le> tod" "tod < 86400000000"
    by (simp_all add: tod_def US_PER_DAY_def)
  have eq': "rd_add (set_months m) dt2 = ord * 86400000000 + tod"
    by (simp add: eq ord_def tod_def US_PER_DAY_def)
  have "12 * dt_year dt2 + m - 11 \<le> 12 * Y" "12 * Y \<le> 12 * dt_year dt2 + m + 11"
    using YM M m2 by linarith+
  moreover have "US_PER_DAY * (days_before_year Y + min 28 (dt_day dt2))
                   \<le> rd_add (set_months m) dt2"
    using ord(1) tod(1) unfolding eq' US_PER_DAY_def dby_def [symmetric] mn_def [symmetric]
    by (simp add: distrib_left)
  moreover have "rd_add (set_months m) dt2 < US_PER_DAY * (days_before_year Y + 367)"
    using ord(2) tod(2) unfolding eq' US_PER_DAY_def dby_def [symmetric]
    by (simp add: distrib_left)
  ultimately show ?thesis by blast
qed


lemma adjust_months_forward_bound:
  assumes "dt1 > rd_add (set_months m) dt2"
  shows "146097 * m \<le> 4800 * (dt1 div US_PER_DAY - min 28 (dt_day dt2)) + 8388
                       - 146097 * (12 * dt_year dt2 - 23)"
proof -
  from rd_add_set_months_bounds [of dt2 m] obtain y where
    y: "12 * dt_year dt2 + m - 11 \<le> 12 * y"
    and lo: "US_PER_DAY * (days_before_year y + min 28 (dt_day dt2)) \<le> rd_add (set_months m) dt2"
    by blast
  define q where "q = dt1 div US_PER_DAY"
  define mn where "mn = min 28 (dt_day dt2)"
  define B where "B = days_before_year y"
  define Y2 where "Y2 = dt_year dt2"
  have "dt1 < 86400000000 * q + 86400000000"
    unfolding q_def US_PER_DAY_def by presburger
  moreover from lo assms have "86400000000 * B + 86400000000 * mn < dt1"
    by (simp add: B_def mn_def US_PER_DAY_def distrib_left)
  ultimately have xq: "B + mn \<le> q" by linarith
  from days_before_year_bounds [of y] have f: "146097 * y - 146796 \<le> 400 * B"
    by (simp add: B_def algebra_simps)
  from y have y': "12 * Y2 + m - 11 \<le> 12 * y" by (simp add: Y2_def)
  from xq f y' have "146097 * m \<le> 4800 * q - 4800 * mn + 8388 - (1753164 * Y2 - 3360231)"
    by linarith
  then show ?thesis by (simp add: q_def mn_def Y2_def algebra_simps)
qed

lemma adjust_months_backward_bound:
  assumes "dt1 < rd_add (set_months m) dt2"
  shows "4800 * (dt1 div US_PER_DAY) - 1766352 - 146097 * (12 * dt_year dt2 - 1) < 146097 * m"
proof -
  from rd_add_set_months_bounds [of dt2 m] obtain y where
    y: "12 * y \<le> 12 * dt_year dt2 + m + 11"
    and hi: "rd_add (set_months m) dt2 < US_PER_DAY * (days_before_year y + 367)"
    by blast
  define q where "q = dt1 div US_PER_DAY"
  define B where "B = days_before_year y"
  define Y2 where "Y2 = dt_year dt2"
  have "86400000000 * q \<le> dt1"
    unfolding q_def US_PER_DAY_def by presburger
  moreover from hi assms have "dt1 < 86400000000 * B + 31708800000000"
    by (simp add: B_def US_PER_DAY_def distrib_left)
  ultimately have xq: "q < B + 367" by linarith
  from days_before_year_bounds [of y] have f: "400 * B \<le> 146097 * y - 145701"
    by (simp add: B_def algebra_simps)
  from y have y': "12 * y \<le> 12 * Y2 + m + 11" by (simp add: Y2_def)
  from xq f y' have "4800 * q - 1766352 - (1753164 * Y2 - 146097) < 146097 * m"
    by linarith
  then show ?thesis by (simp add: q_def Y2_def algebra_simps)
qed

termination adjust_months
proof (relation "measure (\<lambda>(dt1, dt2, forward, m).
          if forward
          then nat (4800 * (dt1 div US_PER_DAY - min 28 (dt_day dt2)) + 8388
                      - 146097 * (12 * dt_year dt2 - 23) + 1 - 146097 * m)
          else nat (146097 * m
                      - (4800 * (dt1 div US_PER_DAY) - 1766352
                           - 146097 * (12 * dt_year dt2 - 1))))", goal_cases)
  case 1
  then show ?case by simp
next
  case (2 dt1 dt2 forward months)
  show ?case
  proof (cases forward)
    case True
    with 2 have "dt1 > rd_add (set_months months) dt2" by simp
    from adjust_months_forward_bound [OF this] True show ?thesis by simp
  next
    case False
    with 2 have "dt1 < rd_add (set_months months) dt2" by simp
    from adjust_months_backward_bound [OF this] False show ?thesis by simp
  qed
qed


declare adjust_months.simps [simp del]

section \<open>Properties of the threshold matcher\<close>

lemma api_usage_percent_pos:
  "0 < allowed \<Longrightarrow> 0 \<le> api_usage \<Longrightarrow>
     api_usage_percent api_usage allowed = Inr (100 * api_usage div allowed)"
  by (simp add: api_usage_percent_def truediv_def py_int_def floor_divide_of_int_eq
      del: of_int_mult)

lemma match_threshold_all_le:
  "\<forall>t \<in> set ts. t \<le> percent \<Longrightarrow>
     match_threshold m percent ts = (if ts = [] then m else Some (last ts))"
  by (induction ts arbitrary: m) auto





section \<open>Evaluation of the concrete inputs\<close>

lemmas calendar_defs =
  mk_datetime_def timedelta_def US_PER_DAY_def ymd2ord_def days_before_year_def
  days_before_month_def DAYS_BEFORE_MONTH_def DAYS_IN_MONTH_def is_leap_def

lemmas relativedelta_defs =
  relativedelta_between_def relativedelta_months_def adjust_months.simps rd_add_def
  set_months_def dt_year_def dt_month_def dt_day_def dt_replace_def ord2ymd_def
  ord2ymd_month_day_def days_in_month_def Let_def

lemmas example_defs =
  example_constants_def free_organisation_def paid_organisation_def example_env_def
  empty_world_def example_now_def monthly_cache_def monthly_organisation_def
  old_term_organisation_def notified_world_def breached_world_def charged_world_def
  other_billing_def restriction_world_def
  failing_usage_env_def failing_flags_env_def example_clock_def

lemmas notification_defs =
  handle_api_usage_notifications_for_def api_usage_percent_def truediv_def py_int_def
  already_notified_def send_api_usage_notification_def threshold_matcher_def
  str_int_def str_nat.simps


section \<open>The usage period\<close>

lemma usage_period_free:
  "is_free_plan (org_subscription organisation) \<Longrightarrow>
     usage_period now organisation =
       Period (now - timedelta 30 0) 30 (max_api_calls (org_subscription organisation))"
  by (simp add: usage_period_def)

lemma usage_period_paid:
  "\<not> is_free_plan (org_subscription organisation) \<Longrightarrow>
   org_subscription_information_cache organisation = Some c \<Longrightarrow>
     \<exists>p d. usage_period now organisation = Period p d (allowed_30d_api_calls c)"
  by (simp add: usage_period_def Let_def)

text \<open>
  C7 (the code departs from the claim).  For a paid organisation whose billing term started
  on 2023-01-15 at 12:00 and \<open>now\<close> = 2024-03-20 10:00, \<^verbatim>\<open>relativedelta(now,
  billing_starts_at)\<close> is one year, two months, four days and 22 hours; the code reads its
  \<^verbatim>\<open>months\<close> field, 2, and not the fourteen whole months elapsed, so the period starts on
  2023-03-15 at 12:00, more than 366 days before \<open>now\<close>, and not on 2024-03-15.  The
  number of days is 4, as it would be from 2024-03-15.
\<close>

theorem C7_period_start_a_year_back:
  "relativedelta_between example_now (mk_datetime 2023 1 15 12 0 0)
     = \<lparr>rd_years = 1, rd_months = 2, rd_days = 4, rd_seconds = 79200, rd_microseconds = 0\<rparr>
   \<and> usage_period example_now old_term_organisation
     = Period (mk_datetime 2023 3 15 12 0 0) 4 1000
   \<and> mk_datetime 2023 3 15 12 0 0 + timedelta 366 0 < example_now"
  by code_simp

section \<open>The notification flow\<close>

text \<open>
  C10.  If the allowed call limit of an organisation is zero (a free plan with
  \<^verbatim>\<open>max_api_calls\<close> = 0, or a paid one whose cache has \<^verbatim>\<open>allowed_30d_api_calls\<close> = 0) and
  the usage query returns, the notification flow raises \<^verbatim>\<open>ZeroDivisionError\<close> at the
  percentage and changes nothing; and the overage biller, for an organisation with the
  feature enabled and a cached limit of zero, raises it at the 200 percent check.
\<close>

theorem C10_zero_limit:
  assumes "\<forall>window. \<exists>api_usage.
             get_current_api_usage e (org_id organisation) window = Inr api_usage"
  shows "(is_free_plan (org_subscription organisation)
            \<and> max_api_calls (org_subscription organisation) = 0
          \<longrightarrow> handle_api_usage_notifications_for e K now sent_at organisation st
                = (Inl ZeroDivisionError, st))
       \<and> (\<not> is_free_plan (org_subscription organisation)
            \<and> org_subscription_information_cache organisation = Some subscription_cache
            \<and> allowed_30d_api_calls subscription_cache = 0
          \<longrightarrow> handle_api_usage_notifications_for e K now sent_at organisation st
                = (Inl ZeroDivisionError, st))
       \<and> (get_identity_flags e (org_id organisation) (plan (org_subscription organisation))
              = Inr flags
            \<and> flags ''api_usage_overage_charges''
            \<and> org_subscription_information_cache organisation = Some subscription_cache
            \<and> allowed_30d_api_calls subscription_cache = 0
          \<longrightarrow> charge_organisation e K now organisation st = (Inl ZeroDivisionError, st))"
proof (intro conjI impI)
  assume a: "is_free_plan (org_subscription organisation)
            \<and> max_api_calls (org_subscription organisation) = 0"
  from assms obtain api_usage where
    "get_current_api_usage e (org_id organisation) (''-'' @ str_int 30 @ ''d'') = Inr api_usage"
    by blast
  with a show "handle_api_usage_notifications_for e K now sent_at organisation st
                = (Inl ZeroDivisionError, st)"
    by (simp add: handle_api_usage_notifications_for_def usage_period_free
        api_usage_percent_def truediv_def)
next
  assume a: "\<not> is_free_plan (org_subscription organisation)
            \<and> org_subscription_information_cache organisation = Some subscription_cache
            \<and> allowed_30d_api_calls subscription_cache = 0"
  with usage_period_paid [of organisation subscription_cache now]
  obtain p d where p: "usage_period now organisation = Period p d 0" by auto
  from assms obtain api_usage where
    "get_current_api_usage e (org_id organisation) (''-'' @ str_int d @ ''d'') = Inr api_usage"
    by blast
  with p show "handle_api_usage_notifications_for e K now sent_at organisation st
                = (Inl ZeroDivisionError, st)"
    by (simp add: handle_api_usage_notifications_for_def api_usage_percent_def truediv_def)
next
  assume a: "get_identity_flags e (org_id organisation) (plan (org_subscription organisation))
              = Inr flags
            \<and> flags ''api_usage_overage_charges''
            \<and> org_subscription_information_cache organisation = Some subscription_cache
            \<and> allowed_30d_api_calls subscription_cache = 0"
  from assms obtain api_usage where
    "get_current_api_usage e (org_id organisation) ''30d'' = Inr api_usage"
    by blast
  with a show "charge_organisation e K now organisation st = (Inl ZeroDivisionError, st)"
    by (simp add: charge_organisation_def truediv_def)
qed

theorem C10_zero_limit_witness:
  "handle_api_usage_notifications_for (example_env 950) example_constants example_now
       (example_now + 1000000) (free_organisation 1 0) empty_world
     = (Inl ZeroDivisionError, empty_world)
   \<and> handle_api_usage_notifications_for (example_env 950) example_constants example_now
       (example_now + 1000000) (monthly_organisation 0) empty_world
     = (Inl ZeroDivisionError, empty_world)
   \<and> charge_organisation (example_env 950) example_constants example_now
       (monthly_organisation 0) empty_world
     = (Inl ZeroDivisionError, empty_world)"
proof -
  have u: "\<forall>window. \<exists>api_usage.
             get_current_api_usage (example_env 950) i window = Inr api_usage" for i
    by (simp add: example_env_def)
  show ?thesis
    using C10_zero_limit [where organisation = "free_organisation 1 0"
        and e = "example_env 950"
        and K = example_constants and now = example_now
        and sent_at = "example_now + 1000000" and st = empty_world, OF u]
      C10_zero_limit [where organisation = "monthly_organisation 0"
        and e = "example_env 950"
        and subscription_cache = "monthly_cache 0"
        and K = example_constants and now = example_now
        and sent_at = "example_now + 1000000" and st = empty_world
        and flags = "\<lambda>feature. True", OF u]
    by (simp add: free_organisation_def monthly_organisation_def paid_organisation_def
        monthly_cache_def example_env_def)
qed

text \<open>
  C3.  The query for a notification already sent is not scoped to the organisation: if the
  table holds a row \<open>n\<close> of any organisation, another one in particular, with
  \<^verbatim>\<open>notified_at\<close> after the start of the period of organisation A and \<^verbatim>\<open>percent_usage\<close> at
  or above the threshold matched for A, then the flow for A returns with the state as it
  was: no mail, no row.
\<close>

theorem C3_check_not_scoped:
  assumes "usage_period now organisation = Period period_starts_at days allowed"
    and "get_current_api_usage e (org_id organisation) (''-'' @ str_int days @ ''d'')
           = Inr api_usage"
    and "threshold_matcher api_usage allowed (API_USAGE_ALERT_THRESHOLDS K)
           = Inr (Some matched_threshold)"
    and "n \<in> set (notifications st)"
    and "notification_organisation n \<noteq> org_id organisation"
    and "notified_at n > period_starts_at"
    and "percent_usage n \<ge> matched_threshold"
  shows "handle_api_usage_notifications_for e K now sent_at organisation st = (Inr (), st)"
proof -
  from assms(4,6,7) have "already_notified period_starts_at matched_threshold st"
    by (auto simp: already_notified_def filter_empty_conv)
  with assms(1,2,3) show ?thesis
    by (auto simp: handle_api_usage_notifications_for_def threshold_matcher_def
        split: sum.splits)
qed

theorem C3_check_not_scoped_witness:
  "usage_period example_now (free_organisation 1 1000)
     = Period (mk_datetime 2024 2 19 10 0 0) 30 1000
   \<and> threshold_matcher 950 1000 (API_USAGE_ALERT_THRESHOLDS example_constants)
       = Inr (Some 90)
   \<and> org_id (free_organisation 1 1000) = 1
   \<and> mk_datetime 2024 2 19 10 0 0 < mk_datetime 2024 3 1 0 0 0
   \<and> handle_api_usage_notifications_for (example_env 950) example_constants example_now
        (example_now + 1000000) (free_organisation 1 1000)
        (notified_world [] 2 100 (mk_datetime 2024 3 1 0 0 0))
      = (Inr (), notified_world [] 2 100 (mk_datetime 2024 3 1 0 0 0))"
proof -
  have p: "usage_period example_now (free_organisation 1 1000)
             = Period (mk_datetime 2024 2 19 10 0 0) 30 1000"
    by code_simp
  have u: "get_current_api_usage (example_env 950) (org_id (free_organisation 1 1000))
             (''-'' @ str_int 30 @ ''d'') = Inr 950"
    by (simp add: example_env_def)
  have t: "threshold_matcher 950 1000 (API_USAGE_ALERT_THRESHOLDS example_constants)
             = Inr (Some 90)"
    by (simp add: notification_defs example_constants_def)
  have l: "mk_datetime 2024 2 19 10 0 0 < mk_datetime 2024 3 1 0 0 0"
    by (simp add: calendar_defs)
  have i: "org_id (free_organisation 1 1000) = 1" by (simp add: free_organisation_def)
  from C3_check_not_scoped [OF p u t, where
      n = "\<lparr>notification_organisation = 2, percent_usage = 100,
            notified_at = mk_datetime 2024 3 1 0 0 0\<rparr>"
      and st = "notified_world [] 2 100 (mk_datetime 2024 3 1 0 0 0)"
      and sent_at = "example_now + 1000000"]
    l i
  have "handle_api_usage_notifications_for (example_env 950) example_constants example_now
        (example_now + 1000000) (free_organisation 1 1000)
        (notified_world [] 2 100 (mk_datetime 2024 3 1 0 0 0))
      = (Inr (), notified_world [] 2 100 (mk_datetime 2024 3 1 0 0 0))"
    by (simp add: notified_world_def empty_world_def)
  with p t l i show ?thesis by simp
qed




section \<open>The loop over the organisations\<close>




section \<open>The overage biller\<close>















section \<open>Restricting and unrestricting\<close>

lemma restrict_loop_ids:
  "restrict_loop e orgs acc = Inr us \<Longrightarrow>
     set (map org_id us) \<subseteq> set (map org_id acc) \<union> set (map org_id orgs)"
proof (induction orgs arbitrary: acc)
  case Nil
  then show ?case by simp
next
  case (Cons organisation rest)
  then show ?case
    by (fastforce split: sum.splits if_splits)
qed

lemma restrict_selected_ids:
  "set (map org_id (restrict_selected e K now_grace now_month st))
     \<subseteq> set (map org_id (restrict_candidates K now_grace now_month st))"
proof (cases "restrict_loop e (restrict_candidates K now_grace now_month st) []")
  case (Inl ex)
  then show ?thesis by (simp add: restrict_selected_def)
next
  case (Inr us)
  with restrict_loop_ids [OF Inr] show ?thesis by (simp add: restrict_selected_def)
qed

lemma restrict_candidates_not_blocked:
  "set (map org_id (restrict_candidates K now_grace now_month st)) \<inter> set (access_blocks st) = {}"
  by (auto simp: restrict_candidates_def)

lemma restrict_candidates_still_restricted:
  "set (map org_id (restrict_candidates K now_grace now st))
     \<subseteq> still_restricted_organisation_ids now st"
  by (auto simp: restrict_candidates_def still_restricted_organisation_ids_def)

lemma matching_organisations_blocked:
  "set (map org_id (matching_organisations now st))
     \<subseteq> set (access_blocks st) - still_restricted_organisation_ids now st"
  by (auto simp: matching_organisations_def)

text \<open>
  C9.  At one instant \<open>now\<close>, on one state, the organisations the apply pass selects (the
  candidates of its query, and among them those it restricts) and the organisations the lift
  pass selects are disjoint: every candidate of the apply pass is in the still-breaching set,
  no organisation of that set is lifted, and every organisation lifted has an access block.
\<close>

theorem C9_apply_lift_disjoint:
  "set (map org_id (restrict_candidates K now now st))
     \<inter> set (map org_id (matching_organisations now st)) = {}
   \<and> set (map org_id (restrict_selected e K now now st))
     \<inter> set (map org_id (matching_organisations now st)) = {}
   \<and> set (map org_id (restrict_candidates K now now st))
       \<subseteq> still_restricted_organisation_ids now st
   \<and> still_restricted_organisation_ids now st
       \<inter> set (map org_id (matching_organisations now st)) = {}
   \<and> set (map org_id (matching_organisations now st)) \<subseteq> set (access_blocks st)"
  using restrict_selected_ids [of e K now now st]
    restrict_candidates_not_blocked [of K now now st]
    restrict_candidates_still_restricted [of K now now st]
    matching_organisations_blocked [of now st]
  by blast

theorem C9_apply_lift_disjoint_witness:
  "map org_id (restrict_candidates example_constants example_now example_now restriction_world)
     = [1]
   \<and> map org_id (restrict_selected (example_env 950) example_constants example_now example_now
        restriction_world) = [1]
   \<and> map org_id (matching_organisations example_now restriction_world) = [2]
   \<and> set (map org_id (restrict_selected (example_env 950) example_constants example_now
        example_now restriction_world))
       \<inter> set (map org_id (matching_organisations example_now restriction_world)) = {}"
proof -
  have c: "restrict_candidates example_constants example_now example_now restriction_world
             = [free_organisation 1 1000]"
    by (simp add: restrict_candidates_def example_defs calendar_defs)
  have s: "map org_id (restrict_selected (example_env 950) example_constants example_now
             example_now restriction_world) = [1]"
    by (simp add: restrict_selected_def c free_organisation_def example_env_def)
  have m: "map org_id (matching_organisations example_now restriction_world) = [2]"
    by (simp add: matching_organisations_def still_restricted_organisation_ids_def
        example_defs calendar_defs)
  from C9_apply_lift_disjoint [of example_constants example_now restriction_world
      "example_env 950"] c s m
  show ?thesis by (simp add: free_organisation_def)
qed

end
